theory Spec2Isabelle
  imports Main "HOL-Library.AList"
begin

section \<open>Python values used by app.py\<close>

text \<open>
  A Python \<open>str\<close> is modelled as a \<open>string\<close>, each \<open>char\<close> read as one code point in
  the range U+0000..U+00FF; code points above U+00FF are outside the model.
  Exceptions are values: every \<open>raise\<close> of app.py and every failure of a library call
  that app.py makes is a constructor of \<open>exn\<close>, and a call that may raise returns
  \<open>exn + 'a\<close> with \<open>Inl\<close> for the exception.
\<close>

datatype exn =
    Exception string        \<comment> \<open>\<open>raise Exception(msg)\<close>, line 97\<close>
  | ValueError string       \<comment> \<open>\<open>raise ValueError(msg)\<close>, lines 254 and 342\<close>
  | TypeError               \<comment> \<open>\<open>str + None\<close>, \<open>cursor.execute(None)\<close>\<close>
  | AttributeError          \<comment> \<open>attribute access on \<open>None\<close> or a missing attribute\<close>
  | ConnectionError         \<comment> \<open>\<open>requests.get\<close> obtains no response\<close>
  | ProgrammingError        \<comment> \<open>sqlite3, for one "Cannot operate on a closed database."\<close>
  | OperationalError        \<comment> \<open>sqlite3, for one "unable to open database file"\<close>
  | IntegrityError          \<comment> \<open>sqlite3: a constraint is violated\<close>

subsection \<open>\<open>str.strip\<close>, \<open>re.findall(r'\S+', _)\<close>, \<open>str.join\<close>, \<open>str(int)\<close>\<close>

definition isspace :: "char \<Rightarrow> bool" where
  \<comment> \<open>the code points below U+0100 for which \<open>str.isspace\<close> holds; \<open>str.strip()\<close> and the
      class \<open>\s\<close> of a \<open>str\<close> pattern both use this test\<close>
  "isspace c = (let n = (of_char c :: nat) in
     (9 \<le> n \<and> n \<le> 13) \<or> (28 \<le> n \<and> n \<le> 32) \<or> n = 133 \<or> n = 160)"

definition nonspace :: "char \<Rightarrow> bool" where
  "nonspace c = (\<not> isspace c)"

definition strip :: "string \<Rightarrow> string" where
  "strip s = rev (dropWhile isspace (rev (dropWhile isspace s)))"

function findall_S :: "string \<Rightarrow> string list" where
  \<comment> \<open>\<open>re.findall(r'\S+', s)\<close>: the maximal runs of non-whitespace, left to right\<close>
  "findall_S s =
     (case dropWhile isspace s of
        [] \<Rightarrow> []
      | c # cs \<Rightarrow> takeWhile nonspace (c # cs) # findall_S (dropWhile nonspace (c # cs)))"
  by pat_completeness auto
termination
proof (relation "measure length")
  show "wf (measure length)" by simp
next
  fix s :: string and c cs
  assume a: "dropWhile isspace s = c # cs"
  have "nonspace c"
    using hd_dropWhile [of isspace s] a by (simp add: nonspace_def)
  then have "length (dropWhile nonspace (c # cs)) \<le> length cs"
    by (simp add: length_dropWhile_le)
  moreover have "length (c # cs) \<le> length s"
    using length_dropWhile_le [of isspace s] a by simp
  ultimately show "(dropWhile nonspace (c # cs), s) \<in> measure length"
    by simp
qed

declare findall_S.simps [simp del]

fun join :: "string \<Rightarrow> string list \<Rightarrow> string" where
  \<comment> \<open>\<open>sep.join(xs)\<close>\<close>
  "join sep [] = []"
| "join sep [x] = x"
| "join sep (x # y # ys) = x @ sep @ join sep (y # ys)"

fun digits :: "nat \<Rightarrow> string" where
  \<comment> \<open>the decimal numeral of a natural number, most significant digit first\<close>
  "digits n =
     (if n < 10 then [''0123456789'' ! n]
      else digits (n div 10) @ [''0123456789'' ! (n mod 10)])"

declare digits.simps [simp del]

definition str_int :: "int \<Rightarrow> string" where
  \<comment> \<open>\<open>str(n)\<close> of a Python \<open>int\<close>\<close>
  "str_int n = (if n < 0 then CHR ''-'' # digits (nat (- n)) else digits (nat n))"

definition endswith :: "string \<Rightarrow> string \<Rightarrow> bool" where
  \<comment> \<open>\<open>s.endswith(suffix)\<close>\<close>
  "endswith s suffix =
     (length suffix \<le> length s \<and> drop (length s - length suffix) s = suffix)"

definition re_match_us :: "string \<Rightarrow> bool" where
  \<comment> \<open>\<open>re.match(r"^us", s, re.IGNORECASE)\<close> is not \<open>None\<close>\<close>
  "re_match_us s =
     (case s of
        c1 # c2 # _ \<Rightarrow> (c1 = CHR ''u'' \<or> c1 = CHR ''U'') \<and> (c2 = CHR ''s'' \<or> c2 = CHR ''S'')
      | _ \<Rightarrow> False)"

subsection \<open>\<open>datetime.strftime("%Y-%m-%d %H:%M")\<close>\<close>

record datetime =
  year :: nat
  month :: nat
  day :: nat
  hour :: nat
  minute :: nat

definition pad2 :: "nat \<Rightarrow> string" where
  \<comment> \<open>\<open>%m\<close>, \<open>%d\<close>, \<open>%H\<close>, \<open>%M\<close>: two digits, zero-padded\<close>
  "pad2 n = (if n < 10 then CHR ''0'' # digits n else digits n)"

definition strftime :: "datetime \<Rightarrow> string" where
  \<comment> \<open>\<open>%Y\<close> is the year's decimal numeral as the C library prints it; it has four digits
      from the year 1000 on\<close>
  "strftime t =
     digits (year t) @ ''-'' @ pad2 (month t) @ ''-'' @ pad2 (day t) @ '' '' @
     pad2 (hour t) @ '':'' @ pad2 (minute t)"

subsection \<open>Dictionaries\<close>

text \<open>
  A \<open>dict\<close> with \<open>str\<close> keys and values is an association list in insertion order;
  \<open>d.update({k: v})\<close> is \<open>AList.update k v d\<close>: it replaces the value of a key that is
  present and appends a key that is not.
\<close>

type_synonym dict = "(string \<times> string) list"

section \<open>The collaborators: carrier pages, the network, SQLite, the clock\<close>

text \<open>
  The tree that \<open>BeautifulSoup(response.text, "html.parser")\<close> builds is represented by
  its tags in document order; of each tag the model keeps the tag name, the tokens of its
  \<open>class\<close> attribute and \<open>.text\<close>, the concatenated strings below it (\<open>el_text\<close>).
  \<open>soup.find(t, {"class": c})\<close> is the first tag named \<open>t\<close> with \<open>c\<close> among its classes,
  or \<open>None\<close>.
\<close>

record element =
  tag :: string
  classes :: "string list"
  el_text :: string      \<comment> \<open>\<open>.text\<close>\<close>

type_synonym soup = "element list"

definition soup_find :: "string \<Rightarrow> string \<Rightarrow> soup \<Rightarrow> element option" where
  "soup_find t c doc = List.find (\<lambda>e. tag e = t \<and> c \<in> set (classes e)) doc"

record response =
  status_code :: int
  page :: soup      \<comment> \<open>the tree of \<open>response.text\<close>\<close>

definition ok :: "response \<Rightarrow> bool" where
  \<comment> \<open>\<open>Response.ok\<close> of requests: false exactly when \<open>raise_for_status()\<close> raises, that is
      for a status code from 400 to 599\<close>
  "ok r = (\<not> (400 \<le> status_code r \<and> status_code r < 600))"

record environ =
  TRACKING_NUMBER :: "string option"
  USER_AGENT :: "string option"
  DB_NAME :: "string option"
  CREATE_TABLE :: "string option"
  INSERT_STATUS :: "string option"

text \<open>
  SQLite is represented by what it has been told: a statement is the SQL text with its
  named parameters, the content of a database file is the list of the statements committed
  to it, and a connection holds the statements executed and not yet committed. What
  SQLite does with a statement is the world's \<open>sqlite\<close>, given the statements the
  connection sees: it executes the statement, or it raises. Which exception it raises
  (IntegrityError for a constraint, OperationalError or ProgrammingError for a statement it
  cannot run) is SQLite's choice, and so is what a failed statement leaves behind in the
  open transaction: nothing under the default conflict handling, the changes made before
  the failure under \<open>OR FAIL\<close>. Whether \<open>sqlite3.connect\<close> can open a path is
  the world's \<open>openable\<close>. A commit on an open connection is taken to succeed.
\<close>

type_synonym stmt = "string \<times> dict"

datatype outcome =
    Executes
  | Fails exn "stmt list"   \<comment> \<open>the exception, and what stays in the transaction\<close>

record connection =
  path :: string
  is_open :: bool
  pending :: "stmt list"

record database_obj =
  name :: "string option"    \<comment> \<open>\<open>None\<close>: the attribute is not set yet\<close>
  conn :: "nat option"       \<comment> \<open>handle of \<open>self.conn\<close>; \<open>self.cursor\<close> is its cursor\<close>

record world =
  environ :: environ                        \<comment> \<open>\<open>os.getenv\<close>, after \<open>load_dotenv()\<close>\<close>
  internet :: "response list"               \<comment> \<open>the final answers, redirects followed, to the next GET requests\<close>
  requested :: "(string \<times> string option) list"  \<comment> \<open>URL and User-Agent of every request sent\<close>
  clock :: "nat \<Rightarrow> datetime"                \<comment> \<open>UTC date and time after so many seconds\<close>
  elapsed :: nat
  sqlite :: "stmt list \<Rightarrow> stmt \<Rightarrow> outcome"
  openable :: "string \<Rightarrow> bool"
  files :: "string \<Rightarrow> stmt list"
  connections :: "connection list"          \<comment> \<open>a connection's handle is its index\<close>
  Database_instance :: "nat option"         \<comment> \<open>the class attribute \<open>Database.instance\<close>\<close>
  heap :: "nat \<Rightarrow> database_obj"            \<comment> \<open>the \<open>Database\<close> objects, by address; an address
                                                 never allocated reads as an object without attributes\<close>
  next_oid :: nat                           \<comment> \<open>the next fresh object identity\<close>

definition utcnow :: "world \<Rightarrow> datetime" where
  "utcnow w = clock w (elapsed w)"

definition asyncio_sleep :: "nat \<Rightarrow> world \<Rightarrow> world" where
  "asyncio_sleep seconds w = w\<lparr>elapsed := elapsed w + seconds\<rparr>"

definition lookup_conn :: "world \<Rightarrow> nat \<Rightarrow> connection option" where
  "lookup_conn w h = (if h < length (connections w) then Some (connections w ! h) else None)"

definition usable :: "world \<Rightarrow> nat \<Rightarrow> connection option" where
  \<comment> \<open>the connection of a handle, when it is open\<close>
  "usable w h =
     (case lookup_conn w h of
        None \<Rightarrow> None
      | Some c \<Rightarrow> if is_open c then Some c else None)"

definition cursor_execute ::
  "nat \<Rightarrow> string option \<Rightarrow> dict \<Rightarrow> world \<Rightarrow> (exn + unit) \<times> world" where
  \<comment> \<open>\<open>cursor.execute(sql, params)\<close> on the cursor of connection \<open>h\<close>\<close>
  "cursor_execute h sql params w =
     (case sql of
        None \<Rightarrow> (Inl TypeError, w)
      | Some q \<Rightarrow>
          (case usable w h of
             None \<Rightarrow> (Inl ProgrammingError, w)
           | Some c \<Rightarrow>
               (case sqlite w (files w (path c) @ pending c) (q, params) of
                  Executes \<Rightarrow>
                    (Inr (),
                     w\<lparr>connections :=
                         (connections w)[h := c\<lparr>pending := pending c @ [(q, params)]\<rparr>]\<rparr>)
                | Fails e left \<Rightarrow>
                    (Inl e,
                     w\<lparr>connections :=
                         (connections w)[h := c\<lparr>pending := pending c @ left\<rparr>]\<rparr>))))"

definition conn_commit :: "nat \<Rightarrow> world \<Rightarrow> (exn + unit) \<times> world" where
  \<comment> \<open>\<open>conn.commit()\<close>\<close>
  "conn_commit h w =
     (case usable w h of
        None \<Rightarrow> (Inl ProgrammingError, w)
      | Some c \<Rightarrow>
          (Inr (),
           w\<lparr>files := (files w)(path c := files w (path c) @ pending c),
             connections := (connections w)[h := c\<lparr>pending := []\<rparr>]\<rparr>))"

definition conn_rollback :: "nat \<Rightarrow> world \<Rightarrow> (exn + unit) \<times> world" where
  \<comment> \<open>\<open>conn.rollback()\<close>\<close>
  "conn_rollback h w =
     (case usable w h of
        None \<Rightarrow> (Inl ProgrammingError, w)
      | Some c \<Rightarrow> (Inr (), w\<lparr>connections := (connections w)[h := c\<lparr>pending := []\<rparr>]\<rparr>))"

definition conn_close :: "nat \<Rightarrow> world \<Rightarrow> world" where
  \<comment> \<open>\<open>conn.close()\<close>: uncommitted statements are lost; closing twice is allowed\<close>
  "conn_close h w =
     (case lookup_conn w h of
        None \<Rightarrow> w
      | Some c \<Rightarrow> w\<lparr>connections := (connections w)[h := c\<lparr>is_open := False, pending := []\<rparr>]\<rparr>)"

definition with_conn ::
  "nat \<Rightarrow> (world \<Rightarrow> (exn + unit) \<times> world) \<Rightarrow> world \<Rightarrow> (exn + unit) \<times> world" where
  \<comment> \<open>\<open>with conn: body\<close>: commit when the body returns, roll back and re-raise when it
      raises; an exception of the commit or rollback itself is the one that propagates\<close>
  "with_conn h body w =
     (case body w of
        (Inr u, w1) \<Rightarrow> conn_commit h w1
      | (Inl e, w1) \<Rightarrow>
          (case conn_rollback h w1 of
             (Inl e', w2) \<Rightarrow> (Inl e', w2)
           | (Inr u, w2) \<Rightarrow> (Inl e, w2)))"

section \<open>class USPS\<close>

record usps =
  oid :: nat                    \<comment> \<open>the identity of the instance\<close>
  tracking_number :: string     \<comment> \<open>\<open>self._tracking_number\<close>, read by the property\<close>
  BASE_URL :: string
  response :: response
  soup :: soup

definition USPS_get ::
  "string \<Rightarrow> string option \<Rightarrow> world \<Rightarrow> (exn + response) \<times> world" where
  \<comment> \<open>\<open>USPS.get(self, tracking_number)\<close>, lines 87-98; the first argument is
      \<open>self.BASE_URL\<close>, all that \<open>get\<close> reads of \<open>self\<close>. A tracking number \<open>None\<close> makes
      \<open>self.BASE_URL + tracking_number\<close> raise before a request is sent.\<close>
  "USPS_get base tn w =
     (case tn of
        None \<Rightarrow> (Inl TypeError, w)
      | Some t \<Rightarrow>
          (let sent = requested w @ [(base @ t, USER_AGENT (environ w))] in
           case internet w of
             [] \<Rightarrow> (Inl ConnectionError, w\<lparr>requested := sent\<rparr>)
           | r # rs \<Rightarrow>
               if \<not> ok r
               then (Inl (Exception (''Error: '' @ str_int (status_code r))),
                     w\<lparr>internet := rs, requested := sent\<rparr>)
               else (Inr r, w\<lparr>internet := rs, requested := sent\<rparr>)))"

definition USPS_init :: "world \<Rightarrow> (exn + usps) \<times> world" where
  \<comment> \<open>\<open>USPS()\<close>, lines 62-70\<close>
  "USPS_init w =
     (let tn = TRACKING_NUMBER (environ w);
          base = ''https://tools.usps.com/go/TrackConfirmAction.action?tLabels='' in
      case USPS_get base tn w of
        (Inl e, w1) \<Rightarrow> (Inl e, w1)
      | (Inr r, w1) \<Rightarrow>
          (case tn of
             None \<Rightarrow> (Inl TypeError, w1)
           | Some t \<Rightarrow>
               (Inr \<lparr>oid = next_oid w1, tracking_number = t, BASE_URL = base,
                      response = r, soup = page r\<rparr>,
                w1\<lparr>next_oid := Suc (next_oid w1)\<rparr>)))"

definition USPS_parse_content :: "usps \<Rightarrow> exn + string" where
  \<comment> \<open>lines 100-106; \<open>find\<close> returning \<open>None\<close> makes \<open>.text\<close> raise\<close>
  "USPS_parse_content self =
     (case soup_find ''p'' ''banner-content'' (soup self) of
        None \<Rightarrow> Inl AttributeError
      | Some e \<Rightarrow> Inr (strip (el_text e)))"

definition USPS_parse_status :: "usps \<Rightarrow> exn + string" where
  "USPS_parse_status self =
     (case soup_find ''p'' ''tb-status'' (soup self) of
        None \<Rightarrow> Inl AttributeError
      | Some e \<Rightarrow> Inr (strip (el_text e)))"

definition USPS_parse_detail :: "usps \<Rightarrow> exn + string" where
  "USPS_parse_detail self =
     (case soup_find ''p'' ''tb-status-detail'' (soup self) of
        None \<Rightarrow> Inl AttributeError
      | Some e \<Rightarrow> Inr (strip (el_text e)))"

definition USPS_parse_location :: "usps \<Rightarrow> exn + string" where
  "USPS_parse_location self =
     (case soup_find ''p'' ''tb-location'' (soup self) of
        None \<Rightarrow> Inl AttributeError
      | Some e \<Rightarrow> Inr (strip (el_text e)))"

definition last_seen_text :: "string \<Rightarrow> string" where
  \<comment> \<open>lines 138-140, from the text of the date element on:
      \<open>" ".join(re.findall(r'\S+', text.strip()))\<close>\<close>
  "last_seen_text t = join '' '' (findall_S (strip t))"

definition USPS_parse_last_seen :: "usps \<Rightarrow> exn + string" where
  "USPS_parse_last_seen self =
     (case soup_find ''p'' ''tb-date'' (soup self) of
        None \<Rightarrow> Inl AttributeError
      | Some e \<Rightarrow> Inr (last_seen_text (el_text e)))"

definition USPS_data :: "usps \<Rightarrow> exn + dict" where
  \<comment> \<open>lines 142-154; the values of the dict display are evaluated in order\<close>
  "USPS_data self =
     (case USPS_parse_content self of
        Inl e \<Rightarrow> Inl e
      | Inr c \<Rightarrow>
     (case USPS_parse_status self of
        Inl e \<Rightarrow> Inl e
      | Inr s \<Rightarrow>
     (case USPS_parse_detail self of
        Inl e \<Rightarrow> Inl e
      | Inr d \<Rightarrow>
     (case USPS_parse_location self of
        Inl e \<Rightarrow> Inl e
      | Inr l \<Rightarrow>
     (case USPS_parse_last_seen self of
        Inl e \<Rightarrow> Inl e
      | Inr t \<Rightarrow>
          Inr [(''tracking_number'', tracking_number self), (''content'', c),
               (''status'', s), (''detail'', d), (''location'', l), (''last_seen'', t)])))))"

section \<open>class Fetch\<close>

record fetch =
  strategy :: usps

definition Fetch :: "usps \<Rightarrow> fetch" where
  "Fetch s = \<lparr>strategy = s\<rparr>"

definition Fetch_tracking_number :: "fetch \<Rightarrow> string" where
  "Fetch_tracking_number self = tracking_number (strategy self)"

definition Fetch_get :: "fetch \<Rightarrow> string option \<Rightarrow> world \<Rightarrow> (exn + response) \<times> world" where
  "Fetch_get self tn w = USPS_get (BASE_URL (strategy self)) tn w"

definition Fetch_parse_content :: "fetch \<Rightarrow> exn + string" where
  "Fetch_parse_content self = USPS_parse_content (strategy self)"

definition Fetch_parse_status :: "fetch \<Rightarrow> exn + string" where
  "Fetch_parse_status self = USPS_parse_status (strategy self)"

definition Fetch_parse_detail :: "fetch \<Rightarrow> exn + string" where
  "Fetch_parse_detail self = USPS_parse_detail (strategy self)"

definition Fetch_parse_location :: "fetch \<Rightarrow> exn + string" where
  "Fetch_parse_location self = USPS_parse_location (strategy self)"

definition Fetch_parse_last_seen :: "fetch \<Rightarrow> exn + string" where
  "Fetch_parse_last_seen self = USPS_parse_last_seen (strategy self)"

definition Fetch_data :: "fetch \<Rightarrow> exn + dict" where
  "Fetch_data self = USPS_data (strategy self)"

section \<open>class Database\<close>

definition ext :: string where
  "ext = ''.db''"

definition Database_new :: "world \<Rightarrow> nat \<times> world" where
  \<comment> \<open>\<open>__new__\<close>, lines 237-245: the instance of the class attribute when there is one,
      otherwise a new object without attributes, stored in the class attribute\<close>
  "Database_new w =
     (case Database_instance w of
        Some a \<Rightarrow> (a, w)
      | None \<Rightarrow>
          (next_oid w,
           w\<lparr>Database_instance := Some (next_oid w),
             heap := (heap w)(next_oid w := \<lparr>name = None, conn = None\<rparr>),
             next_oid := Suc (next_oid w)\<rparr>))"

definition Database_init ::
  "nat \<Rightarrow> string option \<Rightarrow> string option \<Rightarrow> world \<Rightarrow> (exn + unit) \<times> world" where
  \<comment> \<open>\<open>__init__\<close>, lines 247-259; \<open>name\<close> is \<open>None\<close> when the variable is not set, and
      \<open>None.endswith\<close> raises. Line 255 assigns \<open>self.name\<close> before line 256 connects:
      when \<open>sqlite3.connect\<close> raises, the object has the new name and keeps whatever
      connection it had.\<close>
  "Database_init self nm sql w =
     (case nm of
        None \<Rightarrow> (Inl AttributeError, w)
      | Some n \<Rightarrow>
          if \<not> endswith n ext
          then (Inl (ValueError (n @ '' must end with '' @ ext)), w)
          else
            (let named = w\<lparr>heap := (heap w)(self := (heap w self)\<lparr>name := Some n\<rparr>)\<rparr> in
             if \<not> openable w n
             then (Inl OperationalError, named)
             else
               (let h = length (connections w);
                    w1 = w\<lparr>connections :=
                             connections w @ [\<lparr>path = n, is_open = True, pending = []\<rparr>],
                           heap := (heap w)(self := \<lparr>name = Some n, conn = Some h\<rparr>)\<rparr> in
                case cursor_execute h sql [] w1 of
                  (Inl e, w2) \<Rightarrow> (Inl e, w2)
                | (Inr u, w2) \<Rightarrow> conn_commit h w2)))"

definition Database :: "string option \<Rightarrow> string option \<Rightarrow> world \<Rightarrow> (exn + nat) \<times> world" where
  \<comment> \<open>the call \<open>Database(name, sql)\<close>: \<open>__new__\<close>, then \<open>__init__\<close> on the object that
      \<open>__new__\<close> returned, as Python does on every call of a class\<close>
  "Database nm sql w =
     (case Database_new w of
        (self, w1) \<Rightarrow>
          (case Database_init self nm sql w1 of
             (Inl e, w2) \<Rightarrow> (Inl e, w2)
           | (Inr u, w2) \<Rightarrow> (Inr self, w2)))"

definition self_conn :: "nat \<Rightarrow> world \<Rightarrow> exn + nat" where
  \<comment> \<open>reading \<open>self.conn\<close>\<close>
  "self_conn self w =
     (case conn (heap w self) of
        None \<Rightarrow> Inl AttributeError
      | Some h \<Rightarrow> Inr h)"

definition Database_enter :: "nat \<Rightarrow> nat" where
  "Database_enter self = self"

definition Database_exit :: "nat \<Rightarrow> world \<Rightarrow> (exn + unit) \<times> world" where
  \<comment> \<open>\<open>__exit__\<close>, lines 275-283: \<open>self.conn.close()\<close>\<close>
  "Database_exit self w =
     (case self_conn self w of
        Inl e \<Rightarrow> (Inl e, w)
      | Inr h \<Rightarrow> (Inr (), conn_close h w))"

definition Database_insert ::
  "nat \<Rightarrow> string option \<Rightarrow> dict \<Rightarrow> world \<Rightarrow> (exn + unit) \<times> world" where
  \<comment> \<open>lines 285-294\<close>
  "Database_insert self sql d w =
     (case self_conn self w of
        Inl e \<Rightarrow> (Inl e, w)
      | Inr h \<Rightarrow>
          (case with_conn h (cursor_execute h sql d) w of
             (Inl e, w1) \<Rightarrow> (Inl e, w1)
           | (Inr u, w1) \<Rightarrow> conn_commit h w1))"



section \<open>class App\<close>

record app =
  sleep :: nat
  delivery_service :: usps
  database :: nat             \<comment> \<open>the address of the \<open>Database\<close> object\<close>

definition App_init :: "string \<Rightarrow> world \<Rightarrow> (exn + app) \<times> world" where
  \<comment> \<open>\<open>App(delivery_service)\<close>, lines 332-344. The \<open>with\<close> statement of line 343 calls
      \<open>Database(...)\<close>, \<open>__enter__\<close>, the body \<open>self.database = db\<close> and then \<open>__exit__\<close>.\<close>
  "App_init ds w =
     (if re_match_us ds
      then
        (case USPS_init w of
           (Inl e, w1) \<Rightarrow> (Inl e, w1)
         | (Inr u, w1) \<Rightarrow>
             (case Database (DB_NAME (environ w1)) (CREATE_TABLE (environ w1)) w1 of
                (Inl e, w2) \<Rightarrow> (Inl e, w2)
              | (Inr obj, w2) \<Rightarrow>
                  (let db = Database_enter obj in
                   case Database_exit obj w2 of
                     (Inl e, w3) \<Rightarrow> (Inl e, w3)
                   | (Inr x, w3) \<Rightarrow>
                       (Inr \<lparr>sleep = 15 * 60, delivery_service = u, database = db\<rparr>, w3))))
      else (Inl (ValueError ''Delivery Service is not supported.''), w))"

definition stamp :: "dict \<Rightarrow> world \<Rightarrow> dict" where
  \<comment> \<open>line 359: \<open>data.update({"date": utcnow().strftime("%Y-%m-%d %H:%M")})\<close>\<close>
  "stamp d w = AList.update ''date'' (strftime (utcnow w)) d"

definition save_data :: "app \<Rightarrow> dict \<Rightarrow> world \<Rightarrow> (exn + unit) \<times> world" where
  \<comment> \<open>lines 353-360\<close>
  "save_data self d w =
     Database_insert (database self) (INSERT_STATUS (environ w)) (stamp d w) w"

definition cycle :: "app \<Rightarrow> world \<Rightarrow> (exn + unit) \<times> world" where
  \<comment> \<open>one iteration of the loop of \<open>run\<close> up to the sleep, lines 368-378; the \<open>print\<close>
      calls read \<open>data\<close> at keys it has and write to standard output only, which is not
      part of the world\<close>
  "cycle self w =
     (let fetch = Fetch (delivery_service self) in
      case Fetch_data fetch of
        Inl e \<Rightarrow> (Inl e, w)
      | Inr d \<Rightarrow> save_data self d w)"

fun run :: "nat \<Rightarrow> app \<Rightarrow> world \<Rightarrow> (exn + unit) \<times> world" where
  \<comment> \<open>\<open>while True\<close>, lines 367-379, followed for at most \<open>n\<close> iterations: \<open>Inl e\<close> when an
      iteration raised \<open>e\<close>, which ends the loop, and \<open>Inr ()\<close> when the loop is still running
      after \<open>n\<close> iterations\<close>
  "run 0 self w = (Inr (), w)"
| "run (Suc n) self w =
     (case cycle self w of
        (Inl e, w1) \<Rightarrow> (Inl e, w1)
      | (Inr u, w1) \<Rightarrow> run n self (asyncio_sleep (sleep self) w1))"

section \<open>Predicates used in the statements\<close>

definition word_ok :: "string \<Rightarrow> bool" where
  \<comment> \<open>a non-empty string without whitespace\<close>
  "word_ok t = (t \<noteq> [] \<and> list_all nonspace t)"

definition connection_open :: "nat \<Rightarrow> world \<Rightarrow> bool" where
  "connection_open self w =
     (case self_conn self w of
        Inl e \<Rightarrow> False
      | Inr h \<Rightarrow> (case usable w h of None \<Rightarrow> False | Some c \<Rightarrow> True))"

subsection \<open>Sample pages, environments and worlds\<close>

definition page_in_transit :: soup where
  "page_in_transit =
     [\<lparr>tag = ''p'', classes = [''banner-content''], el_text = ''  X  ''\<rparr>,
      \<lparr>tag = ''p'', classes = [''tb-status''], el_text = ''In Transit''\<rparr>,
      \<lparr>tag = ''p'', classes = [''tb-status-detail''], el_text = ''Y''\<rparr>,
      \<lparr>tag = ''p'', classes = [''tb-location''], el_text = ''Chicago, IL''\<rparr>,
      \<lparr>tag = ''p'', classes = [''tb-date''],
        el_text = ''Nov 3, 2023'' @ [CHR 0x0A] @ ''  10:15 AM''\<rparr>]"

definition page_delivered :: soup where
  "page_delivered =
     [\<lparr>tag = ''p'', classes = [''banner-content''], el_text = ''Z''\<rparr>,
      \<lparr>tag = ''p'', classes = [''tb-status''], el_text = ''Delivered''\<rparr>,
      \<lparr>tag = ''p'', classes = [''tb-status-detail''], el_text = ''Left at door''\<rparr>,
      \<lparr>tag = ''p'', classes = [''tb-location''], el_text = ''Chicago, IL''\<rparr>,
      \<lparr>tag = ''p'', classes = [''tb-date''], el_text = ''Nov 4, 2023 9:00 AM''\<rparr>]"

definition env0 :: environ where
  "env0 =
     \<lparr>TRACKING_NUMBER = Some ''9400'', USER_AGENT = Some ''agent'',
      DB_NAME = Some ''usps.db'', CREATE_TABLE = Some ''CREATE'',
      INSERT_STATUS = Some ''INSERT''\<rparr>"

definition start :: "environ \<Rightarrow> response list \<Rightarrow> world" where
  \<comment> \<open>a world in which nothing has happened yet: no request, no connection, no object,
      empty database files, an engine that executes every statement and opens every
      path, and a clock that
      starts on 3 November 2023 at 10:15 (the date does not roll over: the runs evaluated
      below are short)\<close>
  "start env rs =
     \<lparr>environ = env, internet = rs, requested = [],
      clock = (\<lambda>s. \<lparr>year = 2023, month = 11, day = 3,
                     hour = (10 + (15 + s div 60) div 60) mod 24,
                     minute = (15 + s div 60) mod 60\<rparr>),
      elapsed = 0, sqlite = (\<lambda>log st. Executes), openable = (\<lambda>p. True),
      files = (\<lambda>p. []), connections = [], Database_instance = None,
      heap = (\<lambda>a. \<lparr>name = None, conn = None\<rparr>), next_oid = 0\<rparr>"

definition usps0 :: usps where
  "usps0 =
     \<lparr>oid = 0, tracking_number = ''9400'',
      BASE_URL = ''https://tools.usps.com/go/TrackConfirmAction.action?tLabels='',
      response = \<lparr>status_code = 200, page = page_in_transit\<rparr>, soup = page_in_transit\<rparr>"

definition app0 :: app where
  "app0 = \<lparr>sleep = 900, delivery_service = usps0, database = 1\<rparr>"

definition two_pages :: "response list" where
  "two_pages = [\<lparr>status_code = 200, page = page_in_transit\<rparr>,
                \<lparr>status_code = 200, page = page_delivered\<rparr>]"

definition opened :: world where
  \<comment> \<open>the world after \<open>Database("usps.db", "CREATE")\<close> in an empty one\<close>
  "opened = snd (Database (DB_NAME env0) (CREATE_TABLE env0) (start env0 []))"


definition app_open :: app where
  "app_open = \<lparr>sleep = 900, delivery_service = usps0, database = 0\<rparr>"

subsection \<open>Snapshots and timestamps\<close>

definition six_keys :: "string list" where
  "six_keys =
     [''tracking_number'', ''content'', ''status'', ''detail'', ''location'', ''last_seen'']"

definition is_digit :: "char \<Rightarrow> bool" where
  "is_digit c = (c \<in> set ''0123456789'')"

definition picture :: "string \<Rightarrow> string" where
  \<comment> \<open>the shape of a string: every decimal digit replaced by \<open>9\<close>\<close>
  "picture s = map (\<lambda>c. if is_digit c then CHR ''9'' else c) s"

definition digit :: "nat \<Rightarrow> char" where
  \<comment> \<open>the decimal digit of the units of a number\<close>
  "digit n = ''0123456789'' ! (n mod 10)"

definition YYYY_MM_DD_HH_MM :: "datetime \<Rightarrow> string" where
  \<comment> \<open>the timestamp format of the specification, written out position by position:
      four digits of the year, two of the month, two of the day, a space, two digits of
      the hour, two of the minute\<close>
  "YYYY_MM_DD_HH_MM t =
     [digit (year t div 1000), digit (year t div 100), digit (year t div 10), digit (year t),
      CHR ''-'', digit (month t div 10), digit (month t),
      CHR ''-'', digit (day t div 10), digit (day t),
      CHR '' '', digit (hour t div 10), digit (hour t),
      CHR '':'', digit (minute t div 10), digit (minute t)]"

definition plausible :: "datetime \<Rightarrow> bool" where
  \<comment> \<open>a date and time of the years 1000 to 9999, as \<open>datetime\<close> holds them\<close>
  "plausible t =
     (1000 \<le> year t \<and> year t \<le> 9999 \<and> 1 \<le> month t \<and> month t \<le> 12 \<and>
      1 \<le> day t \<and> day t \<le> 31 \<and> hour t < 24 \<and> minute t < 60)"

definition snapshot0 :: dict where
  "snapshot0 =
     [(''tracking_number'', ''9400''), (''content'', ''X''), (''status'', ''In Transit''),
      (''detail'', ''Y''), (''location'', ''Chicago, IL''),
      (''last_seen'', ''Nov 3, 2023 10:15 AM'')]"

definition reopened :: world where
  \<comment> \<open>the world after a second construction, \<open>Database("other.db", "CREATE2")\<close>\<close>
  "reopened = snd (Database (Some ''other.db'') (Some ''CREATE2'') opened)"

definition trimmed_nonempty :: "string \<Rightarrow> bool" where
  "trimmed_nonempty v = (v \<noteq> [] \<and> strip v = v)"

definition has_text :: "string \<Rightarrow> soup \<Rightarrow> bool" where
  \<comment> \<open>the page has a \<open>p\<close> element of class \<open>c\<close>, and the first one has text that is not
      only whitespace\<close>
  "has_text c doc =
     (case soup_find ''p'' c doc of
        None \<Rightarrow> False
      | Some e \<Rightarrow> list_ex nonspace (el_text e))"

definition well_formed :: "soup \<Rightarrow> bool" where
  "well_formed doc =
     (has_text ''banner-content'' doc \<and> has_text ''tb-status'' doc \<and>
      has_text ''tb-status-detail'' doc \<and> has_text ''tb-location'' doc \<and>
      has_text ''tb-date'' doc)"

section \<open>Whitespace normalisation\<close>

lemma findall_S_space_Cons: "isspace c \<Longrightarrow> findall_S (c # s) = findall_S s"
  by (subst (1 2) findall_S.simps) simp

lemma findall_S_Nil: "findall_S [] = []"
  by (subst findall_S.simps) simp

lemma findall_S_words: "list_all word_ok (findall_S s)"
proof (induction s rule: findall_S.induct)
  case (1 s)
  show ?case
  proof (cases "dropWhile isspace s")
    case Nil
    show ?thesis by (subst findall_S.simps) (simp add: Nil)
  next
    case (Cons c cs)
    have ns: "nonspace c"
      using hd_dropWhile [of isspace s] Cons by (simp add: nonspace_def)
    have "word_ok (takeWhile nonspace (c # cs))"
      using ns by (simp add: word_ok_def list_all_iff) (meson set_takeWhileD)
    with 1 [OF Cons] show ?thesis
      by (subst findall_S.simps) (simp add: Cons)
  qed
qed

lemma findall_S_word_append:
  assumes "word_ok t" "isspace c"
  shows "findall_S (t @ c # r) = t # findall_S r"
proof -
  obtain a as where t: "t = a # as"
    using assms(1) by (cases t) (auto simp: word_ok_def)
  have all: "\<forall>x\<in>set t. nonspace x"
    using assms(1) by (simp add: word_ok_def list_all_iff)
  have a: "\<not> isspace a" using all t by (simp add: nonspace_def)
  have tw: "takeWhile nonspace (t @ c # r) = t"
    using all assms(2) by (simp add: nonspace_def)
  have dw: "dropWhile nonspace (t @ c # r) = c # r"
    using all assms(2) by (simp add: nonspace_def)
  have "findall_S (t @ c # r) =
      takeWhile nonspace (t @ c # r) # findall_S (dropWhile nonspace (t @ c # r))"
    using a t by (subst findall_S.simps) simp
  then show ?thesis using tw dw findall_S_space_Cons [OF assms(2)] by simp
qed

lemma findall_S_word:
  assumes "word_ok t"
  shows "findall_S t = [t]"
proof -
  obtain a as where t: "t = a # as"
    using assms(1) by (cases t) (auto simp: word_ok_def)
  have all: "\<forall>x\<in>set t. nonspace x"
    using assms(1) by (simp add: word_ok_def list_all_iff)
  have a: "\<not> isspace a" using all t by (simp add: nonspace_def)
  have "findall_S t = takeWhile nonspace t # findall_S (dropWhile nonspace t)"
    using a t by (subst findall_S.simps) simp
  moreover have "takeWhile nonspace t = t" using all by simp
  moreover have "dropWhile nonspace t = []" using all by simp
  ultimately show ?thesis by (simp add: findall_S_Nil)
qed

lemma join_Cons: "join sep (x # xs) = (if xs = [] then x else x @ sep @ join sep xs)"
  by (cases xs) simp_all

lemma isspace_blank: "isspace CHR '' ''"
  by (simp add: isspace_def)

lemma findall_S_join: "list_all word_ok ts \<Longrightarrow> findall_S (join '' '' ts) = ts"
proof (induction ts)
  case Nil
  then show ?case by (simp add: findall_S_Nil)
next
  case (Cons x xs)
  then have x: "word_ok x" and xs: "findall_S (join '' '' xs) = xs" by simp_all
  show ?case
  proof (cases "xs = []")
    case True
    then show ?thesis using x by (simp add: findall_S_word)
  next
    case False
    then have "join '' '' (x # xs) = x @ CHR '' '' # join '' '' xs"
      by (simp add: join_Cons)
    then show ?thesis
      using findall_S_word_append [OF x isspace_blank] xs by simp
  qed
qed

lemma strip_id:
  assumes "s = [] \<or> (nonspace (hd s) \<and> nonspace (last s))"
  shows "strip s = s"
proof (cases s)
  case Nil
  then show ?thesis by (simp add: strip_def)
next
  case (Cons a as)
  with assms have h: "nonspace a" and l: "nonspace (last s)" by auto
  have 1: "dropWhile isspace s = s" using h Cons by (simp add: nonspace_def)
  have "hd (rev s) = last s" and "rev s \<noteq> []" using Cons by (simp_all add: hd_rev)
  then obtain b bs where r: "rev s = b # bs" and b: "b = last s"
    by (cases "rev s") auto
  have 2: "dropWhile isspace (rev s) = rev s"
    using l b unfolding r by (simp add: nonspace_def)
  show ?thesis by (simp add: strip_def 1 2)
qed

lemma join_ends:
  "list_all word_ok ts \<Longrightarrow> ts \<noteq> [] \<Longrightarrow>
   join '' '' ts \<noteq> [] \<and> hd (join '' '' ts) = hd (hd ts) \<and>
   last (join '' '' ts) = last (last ts)"
proof (induction ts)
  case Nil
  then show ?case by simp
next
  case (Cons x xs)
  then have x: "x \<noteq> []" by (simp add: word_ok_def)
  show ?case
  proof (cases "xs = []")
    case True
    then show ?thesis using x by simp
  next
    case False
    then show ?thesis using Cons x by (simp add: join_Cons)
  qed
qed

lemma word_ok_ends: "word_ok t \<Longrightarrow> nonspace (hd t) \<and> nonspace (last t)"
  by (cases t) (auto simp: word_ok_def list_all_iff)

lemma strip_join:
  assumes "list_all word_ok ts"
  shows "strip (join '' '' ts) = join '' '' ts"
proof (cases ts)
  case Nil
  then show ?thesis by (simp add: strip_def)
next
  case (Cons a as)
  then have ne: "ts \<noteq> []" by simp
  have "word_ok (hd ts)" "word_ok (last ts)"
    using assms ne by (auto simp: list_all_iff)
  then show ?thesis
    using join_ends [OF assms ne] word_ok_ends by (intro strip_id) simp
qed

lemma last_seen_text_trimmed: "strip (last_seen_text s) = last_seen_text s"
  by (simp add: last_seen_text_def strip_join findall_S_words)

text \<open>
  C7. The whitespace normalisation of \<open>parse_last_seen\<close> (trim the text of the date
  element, split it into its runs of non-whitespace, join them with single spaces) is
  idempotent: normalising a normalised string changes nothing. The date with a newline and
  two spaces before the time and the date with one space both normalise to
  \<open>Nov 3, 2023 10:15 AM\<close>.
\<close>

theorem last_seen_text_idempotent:
  "last_seen_text (last_seen_text s) = last_seen_text s
   \<and> last_seen_text (''Nov 3, 2023'' @ [CHR 0x0A] @ ''  10:15 AM'') = ''Nov 3, 2023 10:15 AM''
   \<and> last_seen_text ''Nov 3, 2023 10:15 AM'' = ''Nov 3, 2023 10:15 AM''"
proof (intro conjI)
  show "last_seen_text (last_seen_text s) = last_seen_text s"
    by (simp add: last_seen_text_def strip_join findall_S_join findall_S_words)
  show "last_seen_text (''Nov 3, 2023'' @ [CHR 0x0A] @ ''  10:15 AM'') = ''Nov 3, 2023 10:15 AM''"
    by code_simp
  show "last_seen_text ''Nov 3, 2023 10:15 AM'' = ''Nov 3, 2023 10:15 AM''"
    by code_simp
qed

section \<open>The facade\<close>

text \<open>
  C9. Every operation of the facade \<open>Fetch\<close> listed in the contract (tracking_number, get,
  parse_content, parse_status, parse_detail, parse_location, parse_last_seen, data) returns
  what the same operation of the wrapped strategy returns, the value or the exception, and
  \<open>get\<close> leaves the world as the strategy's \<open>get\<close> leaves it.
\<close>

theorem Fetch_delegates:
  "Fetch_tracking_number (Fetch s) = tracking_number s
   \<and> Fetch_get (Fetch s) tn w = USPS_get (BASE_URL s) tn w
   \<and> Fetch_parse_content (Fetch s) = USPS_parse_content s
   \<and> Fetch_parse_status (Fetch s) = USPS_parse_status s
   \<and> Fetch_parse_detail (Fetch s) = USPS_parse_detail s
   \<and> Fetch_parse_location (Fetch s) = USPS_parse_location s
   \<and> Fetch_parse_last_seen (Fetch s) = USPS_parse_last_seen s
   \<and> Fetch_data (Fetch s) = USPS_data s"
  by (simp add: Fetch_def Fetch_tracking_number_def Fetch_get_def Fetch_parse_content_def
      Fetch_parse_status_def Fetch_parse_detail_def Fetch_parse_location_def
      Fetch_parse_last_seen_def Fetch_data_def)

section \<open>The connection of the record store\<close>

lemma Database_init_result:
  "Database_init self nm sql w = (Inr u, w') \<Longrightarrow>
   \<exists>n q. nm = Some n \<and> sql = Some q \<and> endswith n ext \<and> openable w n
     \<and> sqlite w (files w n) (q, []) = Executes
     \<and> connections w' = connections w @ [\<lparr>path = n, is_open = True, pending = []\<rparr>]
     \<and> heap w' = (heap w)(self := \<lparr>name = Some n, conn = Some (length (connections w))\<rparr>)
     \<and> files w' = (files w)(n := files w n @ [(q, [])])
     \<and> Database_instance w' = Database_instance w"
  by (auto simp: Database_init_def cursor_execute_def conn_commit_def usable_def lookup_conn_def Let_def
      split: option.splits if_splits prod.splits sum.splits outcome.splits)

lemma Database_result:
  assumes "Database nm sql w = (Inr a, w')"
  shows "\<exists>n h. heap w' a = \<lparr>name = Some n, conn = Some h\<rparr> \<and> h < length (connections w')
     \<and> connections w' ! h = \<lparr>path = n, is_open = True, pending = []\<rparr>
     \<and> Database_instance w' = Some a"
proof -
  obtain w1 where n: "Database_new w = (a, w1)" and i: "Database_init a nm sql w1 = (Inr (), w')"
    using assms by (auto simp: Database_def split: prod.splits sum.splits)
  have inst: "Database_instance w1 = Some a"
    using n by (auto simp: Database_new_def split: option.splits)
  from Database_init_result [OF i] inst show ?thesis
    by (auto simp: nth_append)
qed

lemma closed_insert:
  assumes "self_conn self w = Inr h" "usable w h = None"
  shows "Database_insert self sql d w = (Inl ProgrammingError, w)"
  using assms
  by (simp add: Database_insert_def with_conn_def cursor_execute_def conn_rollback_def
      split: option.splits)

lemma App_init_result:
  assumes "App_init ds w = (Inr self, w')"
  shows "\<exists>h. self_conn (database self) w' = Inr h \<and> usable w' h = None"
proof -
  obtain u w1 w2 obj where
    d: "Database (DB_NAME (environ w1)) (CREATE_TABLE (environ w1)) w1 = (Inr obj, w2)"
    and x: "Database_exit obj w2 = (Inr (), w')" and s: "database self = obj"
    using assms
    by (auto simp: App_init_def Database_enter_def Let_def
        split: if_splits prod.splits sum.splits)
  from Database_result [OF d] obtain n h where
    h: "heap w2 obj = \<lparr>name = Some n, conn = Some h\<rparr>" "h < length (connections w2)"
    by blast
  have c: "self_conn obj w2 = Inr h" using h by (simp add: self_conn_def)
  have w': "w' = conn_close h w2" using x c by (simp add: Database_exit_def)
  have "self_conn obj w' = Inr h"
    using h by (simp add: w' self_conn_def conn_close_def lookup_conn_def)
  moreover have "usable w' h = None"
    using h by (simp add: w' usable_def conn_close_def lookup_conn_def)
  ultimately show ?thesis using s by blast
qed

text \<open>
  C1. The claim is that the connection of the record store is still open when a cycle's
  insert executes. The code closes it before the loop starts: the \<open>with\<close> statement in the
  constructor of \<open>App\<close> ends with \<open>__exit__\<close>, which closes the connection. So after every
  successful construction of an \<open>App\<close> the connection of its store is closed, and
  \<open>save_data\<close> raises sqlite3's ProgrammingError, whatever the data, leaving the world as
  it was.
\<close>

theorem App_init_closes_connection:
  assumes "App_init ds w = (Inr self, w')"
  shows "connection_open (database self) w' = False
    \<and> save_data self d w' = (Inl ProgrammingError, w')"
proof -
  from App_init_result [OF assms] obtain h where
    h: "self_conn (database self) w' = Inr h" "usable w' h = None" by blast
  show ?thesis
    using h closed_insert [OF h] by (simp add: connection_open_def save_data_def)
qed

lemma App_init_demo: "fst (App_init ''usps'' (start env0 two_pages)) = Inr app0"
  by (simp add: App_init_def re_match_us_def USPS_init_def USPS_get_def start_def env0_def
      two_pages_def ok_def Database_def Database_new_def Database_init_def endswith_def ext_def
      cursor_execute_def usable_def lookup_conn_def conn_commit_def Database_enter_def
      Database_exit_def self_conn_def conn_close_def app0_def usps0_def Let_def)

theorem App_init_closes_connection_witness:
  "fst (App_init ''usps'' (start env0 two_pages)) = Inr app0
   \<and> connection_open (database app0) (snd (App_init ''usps'' (start env0 two_pages))) = False
   \<and> save_data app0 [] (snd (App_init ''usps'' (start env0 two_pages)))
       = (Inl ProgrammingError, snd (App_init ''usps'' (start env0 two_pages)))"
proof -
  have "App_init ''usps'' (start env0 two_pages)
      = (Inr app0, snd (App_init ''usps'' (start env0 two_pages)))"
    using App_init_demo by (metis prod.collapse)
  from App_init_closes_connection [OF this, of "[]"] App_init_demo show ?thesis by simp
qed

section \<open>What a cycle does to the network and to the store\<close>

lemma cursor_execute_frame:
  "requested (snd (cursor_execute h sql d w)) = requested w
   \<and> internet (snd (cursor_execute h sql d w)) = internet w
   \<and> next_oid (snd (cursor_execute h sql d w)) = next_oid w
   \<and> files (snd (cursor_execute h sql d w)) = files w"
  by (simp add: cursor_execute_def split: option.splits outcome.splits)

lemma conn_commit_frame:
  "requested (snd (conn_commit h w)) = requested w
   \<and> internet (snd (conn_commit h w)) = internet w
   \<and> next_oid (snd (conn_commit h w)) = next_oid w"
  by (simp add: conn_commit_def split: option.splits)

lemma conn_rollback_frame:
  "requested (snd (conn_rollback h w)) = requested w
   \<and> internet (snd (conn_rollback h w)) = internet w
   \<and> next_oid (snd (conn_rollback h w)) = next_oid w
   \<and> files (snd (conn_rollback h w)) = files w"
  by (simp add: conn_rollback_def split: option.splits)

lemma Database_insert_frame:
  "requested (snd (Database_insert self sql d w)) = requested w
   \<and> internet (snd (Database_insert self sql d w)) = internet w
   \<and> next_oid (snd (Database_insert self sql d w)) = next_oid w"
proof (cases "self_conn self w")
  case (Inl e)
  then show ?thesis by (simp add: Database_insert_def)
next
  case (Inr h)
  obtain r1 w1 where e: "cursor_execute h sql d w = (r1, w1)" by (cases "cursor_execute h sql d w")
  have f1: "requested w1 = requested w \<and> internet w1 = internet w \<and> next_oid w1 = next_oid w"
    using cursor_execute_frame [of h sql d w] e by simp
  obtain r2 w2 where c: "with_conn h (cursor_execute h sql d) w = (r2, w2)"
    by (cases "with_conn h (cursor_execute h sql d) w")
  have f2: "requested w2 = requested w \<and> internet w2 = internet w \<and> next_oid w2 = next_oid w"
    using c e f1 conn_commit_frame [of h w1] conn_rollback_frame [of h w1]
    by (auto simp: with_conn_def split: sum.splits prod.splits)
  show ?thesis
    using Inr c f2 conn_commit_frame [of h w2]
    by (auto simp: Database_insert_def split: sum.splits)
qed

lemma cycle_frame:
  "requested (snd (cycle self w)) = requested w
   \<and> internet (snd (cycle self w)) = internet w
   \<and> next_oid (snd (cycle self w)) = next_oid w"
  using Database_insert_frame
  by (simp add: cycle_def save_data_def Let_def split: sum.splits)

text \<open>
  C2. The claim is that every iteration of the loop constructs a new strategy, so that each
  cycle fetches and parses afresh. The code constructs the strategy once, in the
  constructor of \<open>App\<close>; an iteration wraps that same instance in a new facade. However many
  iterations run, the loop sends no request, consumes no answer of the carrier and creates
  no object that has an identity in the model.
\<close>

theorem run_never_fetches:
  "requested (snd (run n self w)) = requested w
   \<and> internet (snd (run n self w)) = internet w
   \<and> next_oid (snd (run n self w)) = next_oid w"
proof (induction n arbitrary: w)
  case 0
  show ?case by simp
next
  case (Suc n)
  obtain r w1 where c: "cycle self w = (r, w1)" by (cases "cycle self w")
  have f: "requested w1 = requested w \<and> internet w1 = internet w \<and> next_oid w1 = next_oid w"
    using cycle_frame [of self w] c by simp
  show ?case
  proof (cases r)
    case (Inl e)
    then show ?thesis using c f by simp
  next
    case (Inr u)
    then show ?thesis
      using c f Suc.IH [of "asyncio_sleep (sleep self) w1"]
      by (simp add: asyncio_sleep_def)
  qed
qed

lemma App_init_demo_net:
  "requested (snd (App_init ''usps'' (start env0 two_pages)))
     = [(''https://tools.usps.com/go/TrackConfirmAction.action?tLabels=9400'', Some ''agent'')]
   \<and> internet (snd (App_init ''usps'' (start env0 two_pages)))
     = [\<lparr>status_code = 200, page = page_delivered\<rparr>]"
  by (simp add: App_init_def re_match_us_def USPS_init_def USPS_get_def start_def env0_def
      two_pages_def ok_def Database_def Database_new_def Database_init_def endswith_def ext_def
      cursor_execute_def usable_def lookup_conn_def conn_commit_def Database_enter_def
      Database_exit_def self_conn_def conn_close_def Let_def)

theorem run_never_fetches_witness:
  "requested (snd (run 3 app0 (snd (App_init ''usps'' (start env0 two_pages)))))
     = [(''https://tools.usps.com/go/TrackConfirmAction.action?tLabels=9400'', Some ''agent'')]
   \<and> internet (snd (run 3 app0 (snd (App_init ''usps'' (start env0 two_pages)))))
     = [\<lparr>status_code = 200, page = page_delivered\<rparr>]"
  using run_never_fetches [of 3 app0 "snd (App_init ''usps'' (start env0 two_pages))"]
    App_init_demo_net
  by simp

text \<open>
  The first iteration after the constructor of \<open>App\<close> always ends the loop, since the
  store's connection is closed by then. With a store whose connection is open, two
  iterations save the snapshot of the page fetched at construction twice, stamped fifteen
  minutes apart, while the page the carrier would serve now is never requested.
\<close>

lemma run_open_store_repeats_snapshot:
  "fst (run 2 app_open (opened\<lparr>internet := [\<lparr>status_code = 200, page = page_delivered\<rparr>]\<rparr>))
     = Inr ()
   \<and> files (snd (run 2 app_open
                (opened\<lparr>internet := [\<lparr>status_code = 200, page = page_delivered\<rparr>]\<rparr>)))
        ''usps.db''
      = [(''CREATE'', []),
         (''INSERT'', snapshot0 @ [(''date'', ''2023-11-03 10:15'')]),
         (''INSERT'', snapshot0 @ [(''date'', ''2023-11-03 10:30'')])]"
  by code_simp

section \<open>A failing cycle\<close>

text \<open>
  C4. When the snapshot of a cycle fails, that is when one of the five parse operations
  raises, the cycle raises the same exception and leaves the world, its database files
  included, as it was: the insert comes after the snapshot. The loop ends there.
\<close>

theorem cycle_failure_persists_nothing:
  assumes "Fetch_data (Fetch (delivery_service self)) = Inl e"
  shows "cycle self w = (Inl e, w) \<and> run (Suc n) self w = (Inl e, w)"
  using assms by (simp add: cycle_def)

theorem cycle_failure_persists_nothing_witness:
  "Fetch_data (Fetch (delivery_service (app0\<lparr>delivery_service := usps0\<lparr>soup := []\<rparr>\<rparr>)))
     = Inl AttributeError
   \<and> cycle (app0\<lparr>delivery_service := usps0\<lparr>soup := []\<rparr>\<rparr>) (start env0 [])
     = (Inl AttributeError, start env0 [])
   \<and> files (snd (run 1 (app0\<lparr>delivery_service := usps0\<lparr>soup := []\<rparr>\<rparr>) (start env0 []))) ''usps.db''
     = []"
proof -
  have a: "Fetch_data (Fetch (delivery_service (app0\<lparr>delivery_service := usps0\<lparr>soup := []\<rparr>\<rparr>)))
     = Inl AttributeError"
    by (simp add: Fetch_data_def Fetch_def USPS_data_def USPS_parse_content_def soup_find_def)
  from cycle_failure_persists_nothing [OF a, of "start env0 []" 0] a show ?thesis
    by (simp add: start_def)
qed

section \<open>The write operations of the record store\<close>

lemma usable_Some:
  "usable w h = Some c \<longleftrightarrow> h < length (connections w) \<and> connections w ! h = c \<and> is_open c"
  by (auto simp: usable_def lookup_conn_def split: if_splits)

lemma Database_insert_success:
  assumes s: "self_conn self w = Inr h" and u: "usable w h = Some c"
    and a: "sqlite w (files w (path c) @ pending c) (q, d) = Executes"
  shows "Database_insert self (Some q) d w =
    (Inr (), w\<lparr>files := (files w)(path c := files w (path c) @ pending c @ [(q, d)]),
               connections := (connections w)[h := c\<lparr>pending := []\<rparr>]\<rparr>)"
proof -
  define w1 where
    "w1 = w\<lparr>connections := (connections w)[h := c\<lparr>pending := pending c @ [(q, d)]\<rparr>]\<rparr>"
  define w2 where
    "w2 = w\<lparr>files := (files w)(path c := files w (path c) @ pending c @ [(q, d)]),
             connections := (connections w)[h := c\<lparr>pending := []\<rparr>]\<rparr>"
  have hl: "h < length (connections w)" and op: "is_open c"
    using u by (simp_all add: usable_Some)
  have e: "cursor_execute h (Some q) d w = (Inr (), w1)"
    using u a by (simp add: cursor_execute_def w1_def)
  have u1: "usable w1 h = Some (c\<lparr>pending := pending c @ [(q, d)]\<rparr>)"
    using hl op by (simp add: usable_Some w1_def)
  have c1: "conn_commit h w1 = (Inr (), w2)"
    using u1 by (simp add: conn_commit_def) (simp add: w1_def w2_def)
  have u2: "usable w2 h = Some (c\<lparr>pending := []\<rparr>)"
    using hl op by (simp add: usable_Some w2_def)
  have c2: "conn_commit h w2 = (Inr (), w2)"
    using u2 by (simp add: conn_commit_def) (simp add: w2_def)
  show ?thesis
    using s e c1 c2 by (simp add: Database_insert_def with_conn_def w2_def)
qed








lemma opened_facts:
  "self_conn 0 opened = Inr 0
   \<and> usable opened 0 = Some \<lparr>path = ''usps.db'', is_open = True, pending = []\<rparr>
   \<and> files opened ''usps.db'' = [(''CREATE'', [])]
   \<and> INSERT_STATUS (environ opened) = Some ''INSERT''
   \<and> sqlite opened = (\<lambda>log st. Executes)"
  by (simp add: opened_def start_def env0_def Database_def Database_new_def Database_init_def
      endswith_def ext_def cursor_execute_def usable_def lookup_conn_def conn_commit_def
      self_conn_def Let_def)



section \<open>Stamping and saving a snapshot\<close>

lemma update_new_key: "k \<notin> fst ` set d \<Longrightarrow> AList.update k v d = d @ [(k, v)]"
  by (induction d) auto

lemma digits_units: "n < 10 \<Longrightarrow> digits n = [digit n]"
  by (subst digits.simps) (simp add: digit_def)

lemma digits_tens: "10 \<le> n \<Longrightarrow> digits n = digits (n div 10) @ [digit n]"
  by (subst digits.simps) (simp add: digit_def)

lemma digits2: "10 \<le> n \<Longrightarrow> n < 100 \<Longrightarrow> digits n = [digit (n div 10), digit n]"
  by (simp add: digits_tens digits_units)

lemma digits3:
  "100 \<le> n \<Longrightarrow> n < 1000 \<Longrightarrow> digits n = [digit (n div 100), digit (n div 10), digit n]"
  using digits2 [of "n div 10"] by (simp add: digits_tens div_mult2_eq [symmetric])

lemma digits4:
  "1000 \<le> n \<Longrightarrow> n \<le> 9999 \<Longrightarrow>
   digits n = [digit (n div 1000), digit (n div 100), digit (n div 10), digit n]"
  using digits3 [of "n div 10"] by (simp add: digits_tens div_mult2_eq [symmetric])

lemma pad2_digits: "n < 100 \<Longrightarrow> pad2 n = [digit (n div 10), digit n]"
  by (cases "n < 10") (simp_all add: pad2_def digits_units digits2 digit_def)

lemma strftime_format:
  assumes "plausible t"
  shows "strftime t = YYYY_MM_DD_HH_MM t"
  using assms
  by (simp add: strftime_def YYYY_MM_DD_HH_MM_def plausible_def digits4 pad2_digits)

lemma digit_is_digit: "is_digit (digit n)"
  unfolding is_digit_def digit_def by (rule nth_mem) simp

lemma picture_format: "picture (YYYY_MM_DD_HH_MM t) = ''9999-99-99 99:99''"
  by (simp add: YYYY_MM_DD_HH_MM_def picture_def digit_is_digit) (simp add: is_digit_def)

text \<open>
  C8. Stamping a snapshot, a dict with the six keys of \<open>data()\<close>, appends one entry,
  \<open>date\<close>, and leaves the six entries as they are. The value of \<open>date\<close> is the reading
  of the UTC clock at that moment in the format \<open>YYYY-MM-DD HH:MM\<close>: the four digits of
  its year, the two of its month, the two of its day, then the two of its hour and the two
  of its minute. When the insert goes through (the connection of the store is open with
  nothing pending and SQLite executes the statement), the one statement that is committed
  carries exactly the six entries and that one timestamp. On a store whose connection is
  closed, as it is after the constructor of \<open>App\<close>, \<open>save_data\<close> raises and persists
  nothing, so that no persisted record is without its six fields and its timestamp.
\<close>

theorem save_data_stamps_snapshot:
  assumes "map fst d = six_keys" and "plausible (utcnow w)"
  shows "stamp d w = d @ [(''date'', strftime (utcnow w))]
    \<and> strftime (utcnow w) = YYYY_MM_DD_HH_MM (utcnow w)
    \<and> picture (strftime (utcnow w)) = ''9999-99-99 99:99''
    \<and> (self_conn (database self) w = Inr h \<and> usable w h = Some c \<and> pending c = []
         \<and> INSERT_STATUS (environ w) = Some q
         \<and> sqlite w (files w (path c)) (q, stamp d w) = Executes
       \<longrightarrow> fst (save_data self d w) = Inr ()
         \<and> files (snd (save_data self d w))
             = (files w)(path c :=
                 files w (path c) @ [(q, d @ [(''date'', YYYY_MM_DD_HH_MM (utcnow w))])]))
    \<and> (self_conn (database self) w = Inr h \<and> usable w h = None
       \<longrightarrow> save_data self d w = (Inl ProgrammingError, w))"
proof -
  have "''date'' \<notin> fst ` set d"
    using assms(1) by (simp add: six_keys_def flip: set_map)
  then have st: "stamp d w = d @ [(''date'', strftime (utcnow w))]"
    by (simp add: stamp_def update_new_key)
  have fm: "strftime (utcnow w) = YYYY_MM_DD_HH_MM (utcnow w)"
    using assms(2) by (rule strftime_format)
  have pc: "picture (strftime (utcnow w)) = ''9999-99-99 99:99''"
    by (simp add: fm picture_format)
  have ok: "fst (save_data self d w) = Inr ()
         \<and> files (snd (save_data self d w))
             = (files w)(path c :=
                 files w (path c) @ [(q, d @ [(''date'', YYYY_MM_DD_HH_MM (utcnow w))])])"
    if s: "self_conn (database self) w = Inr h" and u: "usable w h = Some c"
      and p: "pending c = []" and i: "INSERT_STATUS (environ w) = Some q"
      and a: "sqlite w (files w (path c)) (q, stamp d w) = Executes"
  proof -
    have "sqlite w (files w (path c) @ pending c) (q, stamp d w) = Executes"
      using a p by simp
    from Database_insert_success [OF s u this] show ?thesis
      using i p st fm by (simp add: save_data_def)
  qed
  have cl: "save_data self d w = (Inl ProgrammingError, w)"
    if s: "self_conn (database self) w = Inr h" and u: "usable w h = None"
    using closed_insert [OF s u] by (simp add: save_data_def)
  show ?thesis using st fm pc ok cl by blast
qed

lemma usps0_data: "USPS_data usps0 = Inr snapshot0"
  unfolding snapshot0_def USPS_data_def USPS_parse_content_def USPS_parse_status_def
    USPS_parse_detail_def USPS_parse_location_def USPS_parse_last_seen_def
  by code_simp

lemma constructed_facts:
  "self_conn 1 (snd (App_init ''usps'' (start env0 two_pages))) = Inr 0
   \<and> usable (snd (App_init ''usps'' (start env0 two_pages))) 0 = None
   \<and> utcnow (snd (App_init ''usps'' (start env0 two_pages)))
       = \<lparr>year = 2023, month = 11, day = 3, hour = 10, minute = 15\<rparr>
   \<and> files (snd (App_init ''usps'' (start env0 two_pages))) ''usps.db'' = [(''CREATE'', [])]"
  by (simp add: App_init_def re_match_us_def USPS_init_def USPS_get_def start_def env0_def
      two_pages_def ok_def Database_def Database_new_def Database_init_def endswith_def ext_def
      cursor_execute_def usable_def lookup_conn_def conn_commit_def Database_enter_def
      Database_exit_def self_conn_def conn_close_def utcnow_def Let_def)

lemma opened_clock:
  "utcnow opened = \<lparr>year = 2023, month = 11, day = 3, hour = 10, minute = 15\<rparr>"
  by (simp add: opened_def start_def env0_def Database_def Database_new_def Database_init_def
      endswith_def ext_def cursor_execute_def usable_def lookup_conn_def conn_commit_def
      utcnow_def Let_def)

lemma sample_timestamp:
  "YYYY_MM_DD_HH_MM \<lparr>year = 2023, month = 11, day = 3, hour = 10, minute = 15\<rparr>
     = ''2023-11-03 10:15''"
  by (simp add: YYYY_MM_DD_HH_MM_def digit_def)

theorem save_data_stamps_snapshot_witness:
  "USPS_data usps0 = Inr snapshot0
   \<and> stamp snapshot0 opened = snapshot0 @ [(''date'', ''2023-11-03 10:15'')]
   \<and> fst (save_data app_open snapshot0 opened) = Inr ()
   \<and> files (snd (save_data app_open snapshot0 opened)) ''usps.db''
       = [(''CREATE'', []), (''INSERT'', snapshot0 @ [(''date'', ''2023-11-03 10:15'')])]
   \<and> fst (App_init ''usps'' (start env0 two_pages)) = Inr app0
   \<and> fst (save_data app0 snapshot0 (snd (App_init ''usps'' (start env0 two_pages))))
       = Inl ProgrammingError
   \<and> files (snd (save_data app0 snapshot0 (snd (App_init ''usps'' (start env0 two_pages)))))
        ''usps.db''
       = [(''CREATE'', [])]"
proof -
  let ?w = "snd (App_init ''usps'' (start env0 two_pages))"
  have k: "map fst snapshot0 = six_keys" by (simp add: snapshot0_def six_keys_def)
  have p: "plausible (utcnow opened)" by (simp add: opened_clock plausible_def)
  have p': "plausible (utcnow ?w)" using constructed_facts by (simp add: plausible_def)
  have a: "save_data app0 snapshot0 ?w = (Inl ProgrammingError, ?w)"
    using save_data_stamps_snapshot [OF k p', of app0 0] constructed_facts
    by (simp add: app0_def)
  have b: "stamp snapshot0 opened = snapshot0 @ [(''date'', ''2023-11-03 10:15'')]
     \<and> fst (save_data app_open snapshot0 opened) = Inr ()
     \<and> files (snd (save_data app_open snapshot0 opened)) ''usps.db''
       = [(''CREATE'', []), (''INSERT'', snapshot0 @ [(''date'', ''2023-11-03 10:15'')])]"
    using save_data_stamps_snapshot [OF k p, of app_open 0
        "\<lparr>path = ''usps.db'', is_open = True, pending = []\<rparr>" "''INSERT''"]
      opened_facts opened_clock sample_timestamp
    by (simp add: app_open_def)
  show ?thesis
    using a b usps0_data App_init_demo constructed_facts by simp
qed

section \<open>Constructing the record store twice\<close>

text \<open>
  C3. The claim is that a second construction returns the first instance and ignores its
  own arguments, so that location, connection and schema state stay those of the first
  construction. \<open>__new__\<close> does return the first instance, but nothing keeps \<open>__init__\<close>
  from running again on it. After a first construction has succeeded, a second one with a
  name that ends in \<open>.db\<close> and can be opened, and with a schema statement that SQLite
  executes, returns the same instance with the second name and with a new connection,
  opened beside the first one, which stays open and is referenced no more; the schema
  statement is committed through the new connection. When the second name cannot be
  opened, the call raises with the instance already renamed and still holding the first
  connection. Only a name that does not end in \<open>.db\<close> leaves everything as it was.
\<close>

theorem Database_second_construction:
  assumes "Database nm1 sql1 w = (Inr a, w1)"
  shows "(endswith n2 ext \<and> openable w1 n2 \<and> sqlite w1 (files w1 n2) (q2, []) = Executes \<longrightarrow>
            fst (Database (Some n2) (Some q2) w1) = Inr a
          \<and> heap (snd (Database (Some n2) (Some q2) w1)) a
              = \<lparr>name = Some n2, conn = Some (length (connections w1))\<rparr>
          \<and> connections (snd (Database (Some n2) (Some q2) w1))
              = connections w1 @ [\<lparr>path = n2, is_open = True, pending = []\<rparr>]
          \<and> files (snd (Database (Some n2) (Some q2) w1))
              = (files w1)(n2 := files w1 n2 @ [(q2, [])]))
    \<and> (endswith n2 ext \<and> \<not> openable w1 n2 \<longrightarrow>
          Database (Some n2) sql2 w1
            = (Inl OperationalError, w1\<lparr>heap := (heap w1)(a := (heap w1 a)\<lparr>name := Some n2\<rparr>)\<rparr>))
    \<and> (\<not> endswith n2 ext \<longrightarrow>
          Database (Some n2) sql2 w1 = (Inl (ValueError (n2 @ '' must end with '' @ ext)), w1))
    \<and> (\<exists>n1 h1. heap w1 a = \<lparr>name = Some n1, conn = Some h1\<rparr> \<and> h1 < length (connections w1)
          \<and> connections w1 ! h1 = \<lparr>path = n1, is_open = True, pending = []\<rparr>)"
proof -
  from Database_result [OF assms] obtain n1 h1 where
    r: "heap w1 a = \<lparr>name = Some n1, conn = Some h1\<rparr>" "h1 < length (connections w1)"
      "connections w1 ! h1 = \<lparr>path = n1, is_open = True, pending = []\<rparr>"
    and i: "Database_instance w1 = Some a" by blast
  have n: "Database_new w1 = (a, w1)" using i by (simp add: Database_new_def)
  have "\<exists>n1 h1. heap w1 a = \<lparr>name = Some n1, conn = Some h1\<rparr> \<and> h1 < length (connections w1)
          \<and> connections w1 ! h1 = \<lparr>path = n1, is_open = True, pending = []\<rparr>"
    using r by blast
  then show ?thesis
    using n
    by (simp add: Database_def Database_init_def cursor_execute_def usable_def lookup_conn_def
        conn_commit_def Let_def)
qed

lemma opened_construction:
  "Database (Some ''usps.db'') (Some ''CREATE'') (start env0 []) = (Inr 0, opened)"
  by (simp add: opened_def start_def env0_def Database_def Database_new_def
      Database_init_def endswith_def ext_def cursor_execute_def usable_def lookup_conn_def
      conn_commit_def Let_def)

lemma opened_store:
  "connections opened = [\<lparr>path = ''usps.db'', is_open = True, pending = []\<rparr>]
   \<and> heap opened 0 = \<lparr>name = Some ''usps.db'', conn = Some 0\<rparr>
   \<and> files opened ''other.db'' = []
   \<and> openable opened = (\<lambda>p. True)"
  by (simp add: opened_def start_def env0_def Database_def Database_new_def
      Database_init_def endswith_def ext_def cursor_execute_def usable_def lookup_conn_def
      conn_commit_def Let_def)

theorem Database_second_construction_witness:
  "fst (Database (Some ''usps.db'') (Some ''CREATE'') (start env0 [])) = Inr 0
   \<and> heap opened 0 = \<lparr>name = Some ''usps.db'', conn = Some 0\<rparr>
   \<and> fst (Database (Some ''other.db'') (Some ''CREATE2'') opened) = Inr 0
   \<and> heap reopened 0 = \<lparr>name = Some ''other.db'', conn = Some 1\<rparr>
   \<and> connections reopened
       = [\<lparr>path = ''usps.db'', is_open = True, pending = []\<rparr>,
          \<lparr>path = ''other.db'', is_open = True, pending = []\<rparr>]
   \<and> files reopened ''other.db'' = [(''CREATE2'', [])]
   \<and> connections (snd (Database (Some ''usps.db'') (Some ''CREATE'') opened))
       = [\<lparr>path = ''usps.db'', is_open = True, pending = []\<rparr>,
          \<lparr>path = ''usps.db'', is_open = True, pending = []\<rparr>]
   \<and> Database (Some ''other'') (Some ''CREATE2'') opened
       = (Inl (ValueError ''other must end with .db''), opened)"
proof -
  note o = opened_construction
  have e: "endswith ''other.db'' ext" "endswith ''usps.db'' ext" "\<not> endswith ''other'' ext"
    by (simp_all add: endswith_def ext_def)
  show ?thesis
    using Database_second_construction [OF o, of "''other.db''" "''CREATE2''"]
      Database_second_construction [OF o, of "''usps.db''" "''CREATE''"]
      Database_second_construction [OF o, of "''other''" _ "Some ''CREATE2''"]
      o e opened_store opened_facts
    by (simp add: reopened_def ext_def)
qed

section \<open>Constructing a strategy\<close>

lemma USPS_init_frame:
  "files (snd (USPS_init w)) = files w \<and> connections (snd (USPS_init w)) = connections w
   \<and> Database_instance (snd (USPS_init w)) = Database_instance w"
  by (simp add: USPS_init_def USPS_get_def Let_def split: option.splits list.splits)

lemma str_int_three_digits:
  assumes "100 \<le> n" and "n \<le> 999"
  shows "str_int n = [digit (nat n div 100), digit (nat n div 10), digit (nat n)]"
  using assms digits3 [of "nat n"] by (simp add: str_int_def)

text \<open>
  C5, as claimed: every response that is not 2xx makes the construction of a strategy
  fail. \<open>Response.ok\<close> is false from 400 to 599 only: with the answer 304 Not Modified,
  which is not a success status, the construction succeeds.
\<close>

theorem USPS_init_not_modified_counterexample:
  "fst (USPS_init (start env0 [\<lparr>status_code = 304, page = []\<rparr>]))
     = Inr \<lparr>oid = 0, tracking_number = ''9400'',
            BASE_URL = ''https://tools.usps.com/go/TrackConfirmAction.action?tLabels='',
            response = \<lparr>status_code = 304, page = []\<rparr>, soup = []\<rparr>"
  by (simp add: USPS_init_def USPS_get_def start_def env0_def ok_def Let_def)

text \<open>
  C5, amended. When a tracking number is configured and the carrier answers with a status
  from 400 to 599, constructing a strategy raises \<open>Exception("Error: " + str(status))\<close>,
  the status written as its three decimal digits, and touches no database file.
  Constructing an \<open>App\<close> for a supported service then raises the same exception, and
  whatever the service no store is constructed, no connection is made and no database file
  changes. When the carrier answers with any other status, below 400 or from 600 on, the
  construction succeeds: the strategy holds the configured tracking number, that response
  and its page.
\<close>

theorem USPS_init_error_status:
  assumes "TRACKING_NUMBER (environ w) = Some tn" and "internet w = r # rs"
  shows "(400 \<le> status_code r \<and> status_code r < 600 \<longrightarrow>
            fst (USPS_init w) = Inl (Exception (''Error: '' @ str_int (status_code r)))
          \<and> str_int (status_code r)
              = [digit (nat (status_code r) div 100), digit (nat (status_code r) div 10),
                 digit (nat (status_code r))]
          \<and> (re_match_us ds \<longrightarrow>
               fst (App_init ds w) = Inl (Exception (''Error: '' @ str_int (status_code r))))
          \<and> files (snd (App_init ds w)) = files w
          \<and> connections (snd (App_init ds w)) = connections w
          \<and> Database_instance (snd (App_init ds w)) = Database_instance w)
    \<and> (status_code r < 400 \<or> 600 \<le> status_code r \<longrightarrow>
            USPS_init w =
              (Inr \<lparr>oid = next_oid w, tracking_number = tn,
                     BASE_URL = ''https://tools.usps.com/go/TrackConfirmAction.action?tLabels='',
                     response = r, soup = page r\<rparr>,
               w\<lparr>internet := rs,
                 requested := requested w @
                   [(''https://tools.usps.com/go/TrackConfirmAction.action?tLabels='' @ tn,
                     USER_AGENT (environ w))],
                 next_oid := Suc (next_oid w)\<rparr>))
    \<and> files (snd (USPS_init w)) = files w"
proof -
  have bad: "fst (USPS_init w) = Inl (Exception (''Error: '' @ str_int (status_code r)))
          \<and> str_int (status_code r)
              = [digit (nat (status_code r) div 100), digit (nat (status_code r) div 10),
                 digit (nat (status_code r))]
          \<and> (re_match_us ds \<longrightarrow>
               fst (App_init ds w) = Inl (Exception (''Error: '' @ str_int (status_code r))))
          \<and> files (snd (App_init ds w)) = files w
          \<and> connections (snd (App_init ds w)) = connections w
          \<and> Database_instance (snd (App_init ds w)) = Database_instance w"
    if c: "400 \<le> status_code r" "status_code r < 600"
  proof -
    have u: "fst (USPS_init w) = Inl (Exception (''Error: '' @ str_int (status_code r)))"
      using assms c by (simp add: USPS_init_def USPS_get_def ok_def)
    obtain w1 where w1:
      "USPS_init w = (Inl (Exception (''Error: '' @ str_int (status_code r))), w1)"
      using u by (cases "USPS_init w") simp
    have f: "files w1 = files w \<and> connections w1 = connections w
        \<and> Database_instance w1 = Database_instance w"
      using USPS_init_frame [of w] w1 by simp
    have s: "str_int (status_code r)
              = [digit (nat (status_code r) div 100), digit (nat (status_code r) div 10),
                 digit (nat (status_code r))]"
      using c by (intro str_int_three_digits) simp_all
    show ?thesis
      using u w1 f s by (simp add: App_init_def)
  qed
  have good: "USPS_init w =
              (Inr \<lparr>oid = next_oid w, tracking_number = tn,
                     BASE_URL = ''https://tools.usps.com/go/TrackConfirmAction.action?tLabels='',
                     response = r, soup = page r\<rparr>,
               w\<lparr>internet := rs,
                 requested := requested w @
                   [(''https://tools.usps.com/go/TrackConfirmAction.action?tLabels='' @ tn,
                     USER_AGENT (environ w))],
                 next_oid := Suc (next_oid w)\<rparr>)"
    if c: "status_code r < 400 \<or> 600 \<le> status_code r"
    using assms c by (auto simp: USPS_init_def USPS_get_def ok_def Let_def)
  show ?thesis
    using bad good USPS_init_frame [of w] by blast
qed

theorem USPS_init_error_status_witness:
  "fst (USPS_init (start env0 [\<lparr>status_code = 404, page = []\<rparr>]))
     = Inl (Exception ''Error: 404'')
   \<and> fst (App_init ''USPS'' (start env0 [\<lparr>status_code = 404, page = []\<rparr>]))
     = Inl (Exception ''Error: 404'')
   \<and> files (snd (App_init ''USPS'' (start env0 [\<lparr>status_code = 404, page = []\<rparr>]))) ''usps.db''
     = []
   \<and> Database_instance (snd (App_init ''USPS'' (start env0 [\<lparr>status_code = 404, page = []\<rparr>])))
     = None
   \<and> fst (USPS_init (start env0 [\<lparr>status_code = 600, page = page_in_transit\<rparr>]))
     = Inr (usps0\<lparr>response := \<lparr>status_code = 600, page = page_in_transit\<rparr>\<rparr>)
   \<and> fst (USPS_init (start env0 [\<lparr>status_code = 200, page = page_in_transit\<rparr>])) = Inr usps0"
proof -
  have m: "re_match_us ''USPS''" by (simp add: re_match_us_def)
  have a: "fst (USPS_init (start env0 [\<lparr>status_code = 404, page = []\<rparr>]))
     = Inl (Exception ''Error: 404'')
   \<and> fst (App_init ''USPS'' (start env0 [\<lparr>status_code = 404, page = []\<rparr>]))
     = Inl (Exception ''Error: 404'')
   \<and> files (snd (App_init ''USPS'' (start env0 [\<lparr>status_code = 404, page = []\<rparr>]))) ''usps.db''
     = []
   \<and> Database_instance (snd (App_init ''USPS'' (start env0 [\<lparr>status_code = 404, page = []\<rparr>])))
     = None"
    using USPS_init_error_status [of "start env0 [\<lparr>status_code = 404, page = []\<rparr>]"
        "''9400''" "\<lparr>status_code = 404, page = []\<rparr>" "[]" "''USPS''"] m
    by (simp add: start_def env0_def digit_def)
  have b: "fst (USPS_init (start env0 [\<lparr>status_code = 600, page = page_in_transit\<rparr>]))
     = Inr (usps0\<lparr>response := \<lparr>status_code = 600, page = page_in_transit\<rparr>\<rparr>)"
    using USPS_init_error_status [of
        "start env0 [\<lparr>status_code = 600, page = page_in_transit\<rparr>]"
        "''9400''" "\<lparr>status_code = 600, page = page_in_transit\<rparr>" "[]"]
    by (simp add: start_def env0_def usps0_def)
  have c: "fst (USPS_init (start env0 [\<lparr>status_code = 200, page = page_in_transit\<rparr>]))
     = Inr usps0"
    using USPS_init_error_status [of
        "start env0 [\<lparr>status_code = 200, page = page_in_transit\<rparr>]"
        "''9400''" "\<lparr>status_code = 200, page = page_in_transit\<rparr>" "[]"]
    by (simp add: start_def env0_def usps0_def)
  show ?thesis using a b c by simp
qed

section \<open>The snapshot\<close>

lemma last_dropWhile: "dropWhile P xs \<noteq> [] \<Longrightarrow> last (dropWhile P xs) = last xs"
  by (metis last_appendR takeWhile_dropWhile_id)

lemma strip_ends: "strip s = [] \<or> (nonspace (hd (strip s)) \<and> nonspace (last (strip s)))"
proof (cases "strip s = []")
  case True
  then show ?thesis by simp
next
  case False
  define a where "a = dropWhile isspace s"
  define b where "b = dropWhile isspace (rev a)"
  have s: "strip s = rev b" by (simp add: strip_def a_def b_def)
  have b: "b \<noteq> []" using False s by simp
  then have ra: "rev a \<noteq> []" unfolding b_def by auto
  then have a: "a \<noteq> []" by simp
  have "nonspace (hd b)"
    using b hd_dropWhile [of isspace "rev a"] by (simp add: b_def nonspace_def)
  then have l: "nonspace (last (strip s))" using b by (simp add: s last_rev)
  have "last b = last (rev a)" using b unfolding b_def by (rule last_dropWhile)
  also have "\<dots> = hd a" using a by (simp add: last_rev)
  finally have "hd (strip s) = hd a" using b by (simp add: s hd_rev)
  moreover have "nonspace (hd a)"
    using a hd_dropWhile [of isspace s] by (simp add: a_def nonspace_def)
  ultimately show ?thesis using l by simp
qed

lemma strip_trimmed: "strip (strip s) = strip s"
  using strip_ends [of s] by (rule strip_id)

lemma strip_nonempty:
  assumes "list_ex nonspace s"
  shows "strip s \<noteq> []"
proof -
  define a where "a = dropWhile isspace s"
  have a: "a \<noteq> []"
    using assms by (auto simp: a_def list_ex_iff nonspace_def)
  have "nonspace (hd a)"
    using a hd_dropWhile [of isspace s] by (simp add: a_def nonspace_def)
  moreover have "hd a \<in> set (rev a)" using a by simp
  ultimately have "dropWhile isspace (rev a) \<noteq> []"
    by (auto simp: nonspace_def)
  then show ?thesis by (simp add: strip_def a_def)
qed

lemma last_seen_text_nonempty:
  assumes "list_ex nonspace s"
  shows "last_seen_text s \<noteq> []"
proof -
  have ne: "strip s \<noteq> []" using assms by (rule strip_nonempty)
  then have "nonspace (hd (strip s))" using strip_ends [of s] by simp
  then have "dropWhile isspace (strip s) = strip s"
    using ne by (cases "strip s") (simp_all add: nonspace_def)
  then have "findall_S (strip s) \<noteq> []"
    using ne by (subst findall_S.simps) (simp split: list.splits)
  then show ?thesis
    using join_ends [OF findall_S_words, of "strip s"] by (simp add: last_seen_text_def)
qed

lemma has_text_strip:
  assumes "has_text c doc"
  shows "\<exists>e. soup_find ''p'' c doc = Some e \<and> trimmed_nonempty (strip (el_text e))"
  using assms
  by (auto simp: has_text_def trimmed_nonempty_def strip_trimmed strip_nonempty
      split: option.splits)

lemma has_text_last_seen:
  assumes "has_text c doc"
  shows "\<exists>e. soup_find ''p'' c doc = Some e \<and> trimmed_nonempty (last_seen_text (el_text e))"
  using assms
  by (auto simp: has_text_def trimmed_nonempty_def last_seen_text_trimmed
      last_seen_text_nonempty split: option.splits)

text \<open>
  C6, as claimed: every successfully constructed strategy over well-formed markup gives a
  snapshot whose six values are trimmed and non-empty. The tracking number is the
  configured string as it is: with \<open>TRACKING_NUMBER\<close> set to the empty string and a page
  that has all five elements with text, the construction succeeds and the snapshot's
  \<open>tracking_number\<close> is empty.
\<close>

theorem USPS_data_empty_tracking_number_counterexample:
  "fst (USPS_init (start (env0\<lparr>TRACKING_NUMBER := Some ''''\<rparr>)
          [\<lparr>status_code = 200, page = page_in_transit\<rparr>]))
     = Inr (usps0\<lparr>tracking_number := ''''\<rparr>)
   \<and> well_formed (soup (usps0\<lparr>tracking_number := ''''\<rparr>))
   \<and> USPS_data (usps0\<lparr>tracking_number := ''''\<rparr>)
     = Inr [(''tracking_number'', ''''), (''content'', ''X''), (''status'', ''In Transit''),
            (''detail'', ''Y''), (''location'', ''Chicago, IL''),
            (''last_seen'', ''Nov 3, 2023 10:15 AM'')]
   \<and> trimmed_nonempty '''' = False"
proof (intro conjI)
  show "fst (USPS_init (start (env0\<lparr>TRACKING_NUMBER := Some ''''\<rparr>)
          [\<lparr>status_code = 200, page = page_in_transit\<rparr>]))
     = Inr (usps0\<lparr>tracking_number := ''''\<rparr>)"
    by (simp add: USPS_init_def USPS_get_def start_def env0_def ok_def usps0_def Let_def)
  show "well_formed (soup (usps0\<lparr>tracking_number := ''''\<rparr>))"
    by code_simp
  show "USPS_data (usps0\<lparr>tracking_number := ''''\<rparr>)
     = Inr [(''tracking_number'', ''''), (''content'', ''X''), (''status'', ''In Transit''),
            (''detail'', ''Y''), (''location'', ''Chicago, IL''),
            (''last_seen'', ''Nov 3, 2023 10:15 AM'')]"
    unfolding USPS_data_def USPS_parse_content_def USPS_parse_status_def
      USPS_parse_detail_def USPS_parse_location_def USPS_parse_last_seen_def
    by code_simp
  show "trimmed_nonempty '''' = False"
    by (simp add: trimmed_nonempty_def)
qed

text \<open>
  C6, amended. For a strategy whose page has, for each of the five markers, a \<open>p\<close>
  element with text that is not only whitespace, \<open>data()\<close> returns a dict with exactly
  the six keys tracking_number, content, status, detail, location, last_seen, in this
  order. The value of tracking_number is the strategy's tracking number as it is, which
  for a constructed strategy is the configured \<open>TRACKING_NUMBER\<close>, neither trimmed nor
  checked. The other five values are the texts of the first element of each marker,
  trimmed, the last one with its whitespace runs collapsed besides; they are trimmed and
  non-empty. So all six values are trimmed and non-empty exactly when the configured
  tracking number is.
\<close>

theorem USPS_data_snapshot:
  assumes "well_formed (soup self)"
  shows "\<exists>e1 e2 e3 e4 e5.
      soup_find ''p'' ''banner-content'' (soup self) = Some e1
    \<and> soup_find ''p'' ''tb-status'' (soup self) = Some e2
    \<and> soup_find ''p'' ''tb-status-detail'' (soup self) = Some e3
    \<and> soup_find ''p'' ''tb-location'' (soup self) = Some e4
    \<and> soup_find ''p'' ''tb-date'' (soup self) = Some e5
    \<and> USPS_data self =
        Inr [(''tracking_number'', tracking_number self),
             (''content'', strip (el_text e1)), (''status'', strip (el_text e2)),
             (''detail'', strip (el_text e3)), (''location'', strip (el_text e4)),
             (''last_seen'', last_seen_text (el_text e5))]
    \<and> list_all trimmed_nonempty
        [strip (el_text e1), strip (el_text e2), strip (el_text e3), strip (el_text e4),
         last_seen_text (el_text e5)]
    \<and> (USPS_init w = (Inr self, w') \<longrightarrow>
         TRACKING_NUMBER (environ w) = Some (tracking_number self)
         \<and> (\<exists>r rs. internet w = r # rs \<and> soup self = page r))
    \<and> (trimmed_nonempty (tracking_number self) \<longrightarrow>
         (\<exists>d. USPS_data self = Inr d \<and> map fst d = six_keys
            \<and> list_all trimmed_nonempty (map snd d)))"
proof -
  from assms obtain e1 e2 e3 e4 e5 where e:
    "soup_find ''p'' ''banner-content'' (soup self) = Some e1"
      "trimmed_nonempty (strip (el_text e1))"
    "soup_find ''p'' ''tb-status'' (soup self) = Some e2"
      "trimmed_nonempty (strip (el_text e2))"
    "soup_find ''p'' ''tb-status-detail'' (soup self) = Some e3"
      "trimmed_nonempty (strip (el_text e3))"
    "soup_find ''p'' ''tb-location'' (soup self) = Some e4"
      "trimmed_nonempty (strip (el_text e4))"
    "soup_find ''p'' ''tb-date'' (soup self) = Some e5"
      "trimmed_nonempty (last_seen_text (el_text e5))"
    unfolding well_formed_def
    using has_text_strip has_text_last_seen by meson
  have d: "USPS_data self =
        Inr [(''tracking_number'', tracking_number self),
             (''content'', strip (el_text e1)), (''status'', strip (el_text e2)),
             (''detail'', strip (el_text e3)), (''location'', strip (el_text e4)),
             (''last_seen'', last_seen_text (el_text e5))]"
    using e
    by (simp add: USPS_data_def USPS_parse_content_def USPS_parse_status_def
        USPS_parse_detail_def USPS_parse_location_def USPS_parse_last_seen_def)
  have c: "TRACKING_NUMBER (environ w) = Some (tracking_number self)
         \<and> (\<exists>r rs. internet w = r # rs \<and> soup self = page r)"
    if "USPS_init w = (Inr self, w')"
    using that
    by (auto simp: USPS_init_def USPS_get_def Let_def
        split: option.splits list.splits if_splits)
  have a: "\<exists>d. USPS_data self = Inr d \<and> map fst d = six_keys
            \<and> list_all trimmed_nonempty (map snd d)"
    if "trimmed_nonempty (tracking_number self)"
    using that d e by (simp add: six_keys_def)
  show ?thesis
    using e d c a by (intro exI [of _ e1] exI [of _ e2] exI [of _ e3] exI [of _ e4]
        exI [of _ e5]) simp
qed

lemma usps0_construction:
  "fst (USPS_init (start env0 [\<lparr>status_code = 200, page = page_in_transit\<rparr>])) = Inr usps0"
  by (simp add: USPS_init_def USPS_get_def start_def env0_def ok_def usps0_def Let_def)

theorem USPS_data_snapshot_witness:
  "well_formed (soup usps0) \<and> trimmed_nonempty (tracking_number usps0)
   \<and> fst (USPS_init (start env0 [\<lparr>status_code = 200, page = page_in_transit\<rparr>])) = Inr usps0
   \<and> TRACKING_NUMBER (environ (start env0 [\<lparr>status_code = 200, page = page_in_transit\<rparr>]))
       = Some (tracking_number usps0)
   \<and> USPS_data usps0 = Inr snapshot0 \<and> map fst snapshot0 = six_keys
   \<and> list_all trimmed_nonempty (map snd snapshot0)"
proof -
  let ?w = "start env0 [\<lparr>status_code = 200, page = page_in_transit\<rparr>]"
  have w: "well_formed (soup usps0)" by code_simp
  have t: "trimmed_nonempty (tracking_number usps0)" by code_simp
  have i: "USPS_init ?w = (Inr usps0, snd (USPS_init ?w))"
    using usps0_construction by (metis prod.collapse)
  from USPS_data_snapshot [OF w, of ?w "snd (USPS_init ?w)"] usps0_data w t i usps0_construction
  show ?thesis by auto
qed

end
